theory Spec2Isabelle
  imports Main
begin

section \<open>Strings and character classes\<close>

text \<open>
  A JavaScript string is modelled as a \<open>string\<close>: the list of its code units, restricted to
  the code units below 256.  In that range the line terminators are LF and CR, and the white
  space of \<open>\s\<close> and of \<open>trim\<close> is TAB, LF, VT, FF, CR, SPACE and NBSP.
\<close>

definition isLineTerminator :: "char \<Rightarrow> bool" where
  "isLineTerminator c = (c = CHR 0x0A \<or> c = CHR 0x0D)"

definition isWhiteSpace :: "char \<Rightarrow> bool" where
  "isWhiteSpace c =
     (c = CHR 0x09 \<or> c = CHR 0x0A \<or> c = CHR 0x0B \<or> c = CHR 0x0C \<or> c = CHR 0x0D
      \<or> c = CHR 0x20 \<or> c = CHR 0xA0)"

definition isDigit :: "char \<Rightarrow> bool" where
  "isDigit c = (let n = (of_char c :: nat) in 48 \<le> n \<and> n \<le> 57)"

definition isWordChar :: "char \<Rightarrow> bool" where
  "isWordChar c =
     (let n = (of_char c :: nat)
      in (48 \<le> n \<and> n \<le> 57) \<or> (65 \<le> n \<and> n \<le> 90) \<or> (97 \<le> n \<and> n \<le> 122) \<or> n = 95)"

text \<open>\<open>String.prototype.trim\<close>.\<close>

definition trim :: "string \<Rightarrow> string" where
  "trim s = rev (dropWhile isWhiteSpace (rev (dropWhile isWhiteSpace s)))"

text \<open>\<open>String.prototype.split\<close> with a one-character separator.\<close>

fun splitChar :: "char \<Rightarrow> string \<Rightarrow> string list" where
  "splitChar d [] = [[]]"
| "splitChar d (c # cs) =
     (if c = d then [] # splitChar d cs
      else (case splitChar d cs of
              [] \<Rightarrow> [[c]]
            | l # ls \<Rightarrow> (c # l) # ls))"

text \<open>\<open>split(/\r?\n/)\<close>: a line ends at LF, or at CR immediately followed by LF.\<close>

fun splitLines :: "string \<Rightarrow> string list" where
  "splitLines [] = [[]]"
| "splitLines (c # cs) =
     (if c = CHR 0x0A then [] # splitLines cs
      else if c = CHR 0x0D \<and> (case cs of [] \<Rightarrow> False | c' # _ \<Rightarrow> c' = CHR 0x0A)
      then [] # splitLines (tl cs)
      else (case splitLines cs of
              [] \<Rightarrow> [[c]]
            | l # ls \<Rightarrow> (c # l) # ls))"

text \<open>Decimal rendering of an array index inside a template literal.\<close>

definition digitChar :: "nat \<Rightarrow> char" where
  "digitChar d = char_of (48 + d)"

fun showNat :: "nat \<Rightarrow> string" where
  "showNat n = (if n < 10 then [digitChar n] else showNat (n div 10) @ [digitChar (n mod 10)])"

declare showNat.simps [simp del]

section \<open>Regular expressions\<close>

text \<open>
  The patterns of the source are values of \<open>regex\<close>.  \<open>Bol\<close> and \<open>Eol\<close> are \<open>^\<close> and \<open>$\<close>
  under the \<open>m\<close> flag, \<open>Bos\<close> and \<open>Eos\<close> are \<open>^\<close> and \<open>$\<close> without it.  \<open>Rep min max greedy r\<close>
  is a quantified atom (\<open>max = None\<close> for no upper bound), \<open>Grp n r\<close> the capturing group
  number \<open>n\<close>, \<open>NLook r\<close> the negative lookahead \<open>(?!r)\<close>.
\<close>

datatype regex =
    Eps
  | Chr char
  | Cls "char \<Rightarrow> bool"
  | Seq regex regex
  | Alt regex regex
  | Rep nat "nat option" bool regex
  | Grp nat regex
  | Bol
  | Eol
  | Bos
  | Eos
  | NLook regex

text \<open>
  A match state: the code unit before the current position (\<open>None\<close> at the start of the
  input), the input from the current position on, and the captures so far.
\<close>

record mstate =
  prev :: "char option"
  rest :: string
  caps :: "nat \<rightharpoonup> string"

type_synonym cont = "mstate \<Rightarrow> mstate option"

primrec grps :: "regex \<Rightarrow> nat list" where
  "grps Eps = []"
| "grps (Chr a) = []"
| "grps (Cls p) = []"
| "grps (Seq r1 r2) = grps r1 @ grps r2"
| "grps (Alt r1 r2) = grps r1 @ grps r2"
| "grps (Rep mn mx g r) = grps r"
| "grps (Grp n r) = n # grps r"
| "grps Bol = []"
| "grps Eol = []"
| "grps Bos = []"
| "grps Eos = []"
| "grps (NLook r) = grps r"

definition clearCaps :: "nat list \<Rightarrow> (nat \<rightharpoonup> string) \<Rightarrow> (nat \<rightharpoonup> string)" where
  "clearCaps ns cs = fold (\<lambda>n m. m(n := None)) ns cs"

definition clearGroups :: "nat list \<Rightarrow> mstate \<Rightarrow> mstate" where
  "clearGroups ns x = x\<lparr>caps := clearCaps ns (caps x)\<rparr>"

definition advance :: "mstate \<Rightarrow> char \<Rightarrow> string \<Rightarrow> mstate" where
  "advance x b bs = x\<lparr>prev := Some b, rest := bs\<rparr>"

text \<open>
  Matchers take their continuation first and the state second.  \<open>setCap n s c\<close> is the
  continuation of group \<open>n\<close> entered on the input \<open>s\<close>: it records the text consumed since
  and goes on with \<open>c\<close>.
\<close>

definition setCap :: "nat \<Rightarrow> string \<Rightarrow> cont \<Rightarrow> cont" where
  "setCap n s c y = c (y\<lparr>caps := (caps y)(n \<mapsto> take (length s - length (rest y)) s)\<rparr>)"

text \<open>
  The repeat matcher of the language definition.  \<open>checkEmpty b l k\<close> is its continuation
  \<open>d\<close>: once \<open>min\<close> is zero (\<open>b\<close>), an iteration that consumed nothing (the input left has
  the length \<open>l\<close> it had before) fails.  The first argument of \<open>repeatMatcher\<close> bounds the
  number of iterations; started at \<open>Suc (min + length (rest x))\<close> it is never exhausted,
  because an iteration that runs once \<open>min\<close> is zero must consume input.
\<close>

definition checkEmpty :: "bool \<Rightarrow> nat \<Rightarrow> cont \<Rightarrow> cont" where
  "checkEmpty b l k y = (if b \<and> length (rest y) = l then None else k y)"

definition decr :: "nat option \<Rightarrow> nat option" where
  "decr mx = map_option (\<lambda>k. k - 1) mx"

definition repeatStep ::
  "(cont \<Rightarrow> cont) \<Rightarrow> nat list \<Rightarrow> nat \<Rightarrow> nat option \<Rightarrow> bool \<Rightarrow> cont \<Rightarrow> cont \<Rightarrow> cont" where
  "repeatStep m gs mn mx greedy c d x =
     (if mx = Some 0 then c x
      else if mn \<noteq> 0 then m d (clearGroups gs x)
      else if \<not> greedy then (case c x of Some z \<Rightarrow> Some z | None \<Rightarrow> m d (clearGroups gs x))
      else (case m d (clearGroups gs x) of Some z \<Rightarrow> Some z | None \<Rightarrow> c x))"

primrec repeatMatcher ::
  "nat \<Rightarrow> (cont \<Rightarrow> cont) \<Rightarrow> nat list \<Rightarrow> nat \<Rightarrow> nat option \<Rightarrow> bool \<Rightarrow> cont \<Rightarrow> cont" where
  "repeatMatcher 0 m gs mn mx greedy c x = None"
| "repeatMatcher (Suc n) m gs mn mx greedy c x =
     repeatStep m gs mn mx greedy c
       (checkEmpty (mn = 0) (length (rest x)) (repeatMatcher n m gs (mn - 1) (decr mx) greedy c)) x"

primrec matcher :: "regex \<Rightarrow> cont \<Rightarrow> cont" where
  "matcher Eps c x = c x"
| "matcher (Chr a) c x =
     (case rest x of [] \<Rightarrow> None | b # bs \<Rightarrow> if b = a then c (advance x b bs) else None)"
| "matcher (Cls p) c x =
     (case rest x of [] \<Rightarrow> None | b # bs \<Rightarrow> if p b then c (advance x b bs) else None)"
| "matcher (Seq r1 r2) c x = matcher r1 (matcher r2 c) x"
| "matcher (Alt r1 r2) c x =
     (case matcher r1 c x of Some z \<Rightarrow> Some z | None \<Rightarrow> matcher r2 c x)"
| "matcher (Rep mn mx greedy r) c x =
     repeatMatcher (Suc (mn + length (rest x))) (matcher r) (grps r) mn mx greedy c x"
| "matcher (Grp n r) c x = matcher r (setCap n (rest x) c) x"
| "matcher Bol c x =
     (case prev x of None \<Rightarrow> c x | Some a \<Rightarrow> if isLineTerminator a then c x else None)"
| "matcher Eol c x =
     (case rest x of [] \<Rightarrow> c x | b # bs \<Rightarrow> if isLineTerminator b then c x else None)"
| "matcher Bos c x = (case prev x of None \<Rightarrow> c x | Some a \<Rightarrow> None)"
| "matcher Eos c x = (case rest x of [] \<Rightarrow> c x | b # bs \<Rightarrow> None)"
| "matcher (NLook r) c x =
     (case matcher r Some x of Some z \<Rightarrow> None | None \<Rightarrow> c x)"

text \<open>One match attempt at a position: the code unit before it and the input from it on.\<close>

definition matchAt :: "regex \<Rightarrow> char option \<Rightarrow> string \<Rightarrow> mstate option" where
  "matchAt re p s = matcher re Some \<lparr>prev = p, rest = s, caps = Map.empty\<rparr>"

text \<open>The matched text of a successful attempt on \<open>s\<close> that ended in state \<open>y\<close>.\<close>

definition matched :: "string \<Rightarrow> mstate \<Rightarrow> string" where
  "matched s y = take (length s - length (rest y)) s"

definition lastChar :: "char option \<Rightarrow> string \<Rightarrow> char option" where
  "lastChar p s = (case s of [] \<Rightarrow> p | _ # _ \<Rightarrow> Some (last s))"

text \<open>
  \<open>String.prototype.replace\<close> with a global pattern and a replacement function of the
  matched text and the captures: the matches are searched from left to right, each search
  starting where the previous match ended, one code unit further after an empty match.
\<close>

function replaceAll ::
  "regex \<Rightarrow> (string \<Rightarrow> (nat \<rightharpoonup> string) \<Rightarrow> string) \<Rightarrow> char option \<Rightarrow> string \<Rightarrow> string" where
  "replaceAll re f p s =
     (case matchAt re p s of
        None \<Rightarrow> (case s of [] \<Rightarrow> [] | a # as \<Rightarrow> a # replaceAll re f (Some a) as)
      | Some y \<Rightarrow>
          if length (rest y) < length s
          then f (matched s y) (caps y)
                 @ replaceAll re f (lastChar p (matched s y)) (drop (length (matched s y)) s)
          else f [] (caps y)
                 @ (case s of [] \<Rightarrow> [] | a # as \<Rightarrow> a # replaceAll re f (Some a) as))"
  by pat_completeness auto
termination
  by (relation "measure (\<lambda>(re, f, p, s). length s)") (auto simp: matched_def)

declare replaceAll.simps [simp del]

text \<open>The same search when the replacement function also updates a state of its own.\<close>

function replaceAllSt ::
  "regex \<Rightarrow> ('st \<Rightarrow> string \<Rightarrow> (nat \<rightharpoonup> string) \<Rightarrow> string \<times> 'st) \<Rightarrow> 'st \<Rightarrow> char option \<Rightarrow> string
     \<Rightarrow> string \<times> 'st" where
  "replaceAllSt re f st p s =
     (case matchAt re p s of
        None \<Rightarrow>
          (case s of
             [] \<Rightarrow> ([], st)
           | a # as \<Rightarrow> (let (r, st') = replaceAllSt re f st (Some a) as in (a # r, st')))
      | Some y \<Rightarrow>
          if length (rest y) < length s
          then (let (out, st1) = f st (matched s y) (caps y);
                    (r, st2) = replaceAllSt re f st1 (lastChar p (matched s y))
                                 (drop (length (matched s y)) s)
                in (out @ r, st2))
          else (let (out, st1) = f st [] (caps y)
                in (case s of
                      [] \<Rightarrow> (out, st1)
                    | a # as \<Rightarrow>
                        (let (r, st2) = replaceAllSt re f st1 (Some a) as in (out @ a # r, st2)))))"
  by pat_completeness auto
termination
  by (relation "measure (\<lambda>(re, f, st, p, s). length s)") (auto simp: matched_def)

declare replaceAllSt.simps [simp del]

text \<open>The first match of a pattern without the \<open>g\<close> flag (\<open>String.prototype.match\<close>).\<close>

fun search :: "regex \<Rightarrow> char option \<Rightarrow> string \<Rightarrow> mstate option" where
  "search re p [] = matchAt re p []"
| "search re p (a # as) =
     (case matchAt re p (a # as) of Some y \<Rightarrow> Some y | None \<Rightarrow> search re (Some a) as)"

text \<open>\<open>String.prototype.replace\<close> with a string pattern: the first occurrence only.\<close>

fun replaceFirstStr :: "string \<Rightarrow> string \<Rightarrow> string \<Rightarrow> string" where
  "replaceFirstStr pat rep [] = (if pat = [] then rep else [])"
| "replaceFirstStr pat rep (a # as) =
     (if take (length pat) (a # as) = pat then rep @ drop (length pat) (a # as)
      else a # replaceFirstStr pat rep as)"

text \<open>\<open>Array.prototype.forEach\<close> with the element and its index, updating a local variable.\<close>

primrec forEachFrom :: "nat \<Rightarrow> ('a \<Rightarrow> nat \<Rightarrow> 's \<Rightarrow> 's) \<Rightarrow> 'a list \<Rightarrow> 's \<Rightarrow> 's" where
  "forEachFrom i f [] s = s"
| "forEachFrom i f (x # xs) s = forEachFrom (Suc i) f xs (f x i s)"

definition forEach :: "('a \<Rightarrow> nat \<Rightarrow> 's \<Rightarrow> 's) \<Rightarrow> 'a list \<Rightarrow> 's \<Rightarrow> 's" where
  "forEach f xs s = forEachFrom 0 f xs s"

subsection \<open>Writing patterns\<close>

primrec cat :: "regex list \<Rightarrow> regex" where
  "cat [] = Eps"
| "cat (r # rs) = Seq r (cat rs)"

definition lit :: "string \<Rightarrow> regex" where
  "lit s = cat (map Chr s)"

definition star :: "regex \<Rightarrow> regex" where "star r = Rep 0 None True r"
definition plus :: "regex \<Rightarrow> regex" where "plus r = Rep 1 None True r"
definition opt :: "regex \<Rightarrow> regex" where "opt r = Rep 0 (Some 1) True r"
definition starLazy :: "regex \<Rightarrow> regex" where "starLazy r = Rep 0 None False r"
definition plusLazy :: "regex \<Rightarrow> regex" where "plusLazy r = Rep 1 None False r"
definition times :: "nat \<Rightarrow> regex \<Rightarrow> regex" where "times n r = Rep n (Some n) True r"

definition dot :: regex where "dot = Cls (\<lambda>c. \<not> isLineTerminator c)"
definition anyChar :: regex where "anyChar = Cls (\<lambda>c. True)"
definition space :: regex where "space = Cls isWhiteSpace"
definition digit :: regex where "digit = Cls isDigit"
definition word :: regex where "word = Cls isWordChar"
definition noneOf :: "string \<Rightarrow> regex" where "noneOf s = Cls (\<lambda>c. c \<notin> set s)"
definition oneOf :: "string \<Rightarrow> regex" where "oneOf s = Cls (\<lambda>c. c \<in> set s)"

subsection \<open>Replacement values\<close>

text \<open>
  A replacement string is a template of literal text and group references \<open>$n\<close>; a group
  that did not take part in the match is replaced by the empty string.
\<close>

datatype piece = Lit string | Ref nat

primrec expandPiece :: "(nat \<rightharpoonup> string) \<Rightarrow> piece \<Rightarrow> string" where
  "expandPiece cs (Lit s) = s"
| "expandPiece cs (Ref n) = (case cs n of None \<Rightarrow> [] | Some v \<Rightarrow> v)"

definition expand :: "piece list \<Rightarrow> (nat \<rightharpoonup> string) \<Rightarrow> string" where
  "expand t cs = concat (map (expandPiece cs) t)"

text \<open>
  A group handed to a replacement function, interpolated into a template literal:
  \<open>undefined\<close> prints as such.  In the patterns below every group read this way takes
  part in every match.
\<close>

definition arg :: "(nat \<rightharpoonup> string) \<Rightarrow> nat \<Rightarrow> string" where
  "arg cs n = (case cs n of None \<Rightarrow> ''undefined'' | Some v \<Rightarrow> v)"

datatype replacement =
    Template "piece list"
  | Function "string \<Rightarrow> (nat \<rightharpoonup> string) \<Rightarrow> string"

record RegExp =
  source :: regex
  lastIndex :: nat

record rule =
  pattern :: RegExp
  replacement :: replacement

definition regExp :: "regex \<Rightarrow> RegExp" where
  "regExp r = \<lparr>source = r, lastIndex = 0\<rparr>"

text \<open>
  \<open>String.prototype.replace\<close> on a pattern object with the \<open>g\<close> flag: \<open>lastIndex\<close> is set to
  0 before the first search, and the search that finds no further match sets it to 0 again.
\<close>

definition jsReplace ::
  "RegExp \<Rightarrow> (string \<Rightarrow> (nat \<rightharpoonup> string) \<Rightarrow> string) \<Rightarrow> string \<Rightarrow> string \<times> RegExp" where
  "jsReplace rx f s = (replaceAll (source rx) f None s, rx\<lparr>lastIndex := 0\<rparr>)"

section \<open>The Markdown parser\<close>

subsection \<open>The patterns of \<open>initializeRules\<close>\<close>

text \<open>\<open>/^#{n}\s+(.+)$/gm\<close>\<close>

definition headerPattern :: "nat \<Rightarrow> regex" where
  "headerPattern n = cat [Bol, times n (Chr CHR ''#''), plus space, Grp 1 (plus dot), Eol]"

text \<open>\<open>/^---+$/gm\<close>, \<open>/^\*\*\*+$/gm\<close>, \<open>/^___+$/gm\<close>\<close>

definition hrPattern :: "char \<Rightarrow> regex" where
  "hrPattern a = cat [Bol, Chr a, Chr a, plus (Chr a), Eol]"

text \<open>
  \<open>/\*\*\*(.+?)\*\*\*/g\<close>, \<open>/___(.+?)___/g\<close>, \<open>/\*\*(.+?)\*\*/g\<close>, \<open>/__(.+?)__/g\<close>,
  \<open>/\*(.+?)\*/g\<close>, \<open>/_(.+?)_/g\<close>, \<open>/~~(.+?)~~/g\<close>
\<close>

definition delimPattern :: "string \<Rightarrow> regex" where
  "delimPattern d = cat [lit d, Grp 1 (plusLazy dot), lit d]"

text \<open>\<open>/```(\w+)?\n([\s\S]*?)```/g\<close>\<close>

definition codeBlockPattern :: regex where
  "codeBlockPattern =
     cat [lit ''```'', opt (Grp 1 (plus word)), Chr CHR 0x0A, Grp 2 (starLazy anyChar), lit ''```'']"

text \<open>\<open>/`([^`]+)`/g\<close>\<close>

definition inlineCodePattern :: regex where
  "inlineCodePattern = cat [Chr CHR ''`'', Grp 1 (plus (noneOf ''`'')), Chr CHR ''`'']"

text \<open>\<open>/\[([^\]]+)\]\(([^)]+)\)/g\<close>\<close>

definition linkPattern :: regex where
  "linkPattern =
     cat [Chr CHR ''['', Grp 1 (plus (noneOf '']'')), Chr CHR '']'', Chr CHR ''('',
          Grp 2 (plus (noneOf '')'')), Chr CHR '')'']"

text \<open>\<open>/!\[([^\]]*)\]\(([^)]+)\)/g\<close>\<close>

definition imagePattern :: regex where
  "imagePattern =
     cat [Chr CHR ''!'', Chr CHR ''['', Grp 1 (star (noneOf '']'')), Chr CHR '']'', Chr CHR ''('',
          Grp 2 (plus (noneOf '')'')), Chr CHR '')'']"

text \<open>\<open>/^>\s+(.+)$/gm\<close>\<close>

definition blockquotePattern :: regex where
  "blockquotePattern = cat [Bol, Chr CHR ''>'', plus space, Grp 1 (plus dot), Eol]"

text \<open>\<open>/^[\*\-\+]\s+\[([ x])\]\s+(.+)$/gm\<close>\<close>

definition taskPattern :: regex where
  "taskPattern =
     cat [Bol, oneOf ''*-+'', plus space, Chr CHR ''['', Grp 1 (oneOf '' x''), Chr CHR '']'',
          plus space, Grp 2 (plus dot), Eol]"

text \<open>\<open>/^[\*\-\+]\s+(.+)$/gm\<close>\<close>

definition ulPattern :: regex where
  "ulPattern = cat [Bol, oneOf ''*-+'', plus space, Grp 1 (plus dot), Eol]"

text \<open>\<open>/^\d+\.\s+(.+)$/gm\<close>\<close>

definition olPattern :: regex where
  "olPattern = cat [Bol, plus digit, Chr CHR ''.'', plus space, Grp 1 (plus dot), Eol]"

text \<open>\<open>/^(?!<[^>]+>)([^\n]+)$/gm\<close>\<close>

definition paragraphPattern :: regex where
  "paragraphPattern =
     cat [Bol, NLook (cat [Chr CHR ''<'', plus (noneOf ''>''), Chr CHR ''>'']),
          Grp 1 (plus (noneOf ''\<newline>'')), Eol]"

subsection \<open>\<open>escapeHtml\<close>\<close>

definition escapeMap :: "string \<rightharpoonup> string" where
  \<open>escapeMap =
     [''&'' \<mapsto> ''&amp;'', ''<'' \<mapsto> ''&lt;'', ''>'' \<mapsto> ''&gt;'', ''"'' \<mapsto> ''&quot;'',
      [CHR 0x27] \<mapsto> ''&#39;'']\<close>

definition escapeHtml :: "string \<Rightarrow> string" where
  \<open>escapeHtml text =
     replaceAll (oneOf (''&<>"'' @ [CHR 0x27]))
       (\<lambda>char cs. case escapeMap char of None \<Rightarrow> ''undefined'' | Some e \<Rightarrow> e) None text\<close>

subsection \<open>The replacement functions of \<open>initializeRules\<close>\<close>

definition orDefault :: "string option \<Rightarrow> string \<Rightarrow> string" where
  "orDefault v d = (case v of None \<Rightarrow> d | Some s \<Rightarrow> if s = [] then d else s)"

definition codeBlockHtml :: "string option \<Rightarrow> string \<Rightarrow> string" where
  \<open>codeBlockHtml lang code =
     ''<pre><code class="language-'' @ orDefault lang ''plaintext'' @ ''">''
       @ escapeHtml (trim code) @ ''</code></pre>''\<close>

definition codeBlockReplacement :: "string \<Rightarrow> (nat \<rightharpoonup> string) \<Rightarrow> string" where
  "codeBlockReplacement m cs = codeBlockHtml (cs 1) (arg cs 2)"

definition toLowerChar :: "char \<Rightarrow> char" where
  "toLowerChar c =
     (let n = (of_char c :: nat)
      in if (65 \<le> n \<and> n \<le> 90) \<or> (192 \<le> n \<and> n \<le> 222 \<and> n \<noteq> 215) then char_of (n + 32) else c)"

definition toLowerCase :: "string \<Rightarrow> string" where
  "toLowerCase s = map toLowerChar s"

definition taskReplacement :: "string \<Rightarrow> (nat \<rightharpoonup> string) \<Rightarrow> string" where
  \<open>taskReplacement m cs =
     (let isChecked = (toLowerCase (arg cs 1) = ''x'');
          checkboxHtml = ''<input type="checkbox" '' @ (if isChecked then ''checked'' else [])
                           @ '' disabled>''
      in ''<ul class="task-list"><li class="task-item">'' @ checkboxHtml @ '' '' @ arg cs 2
           @ ''</li></ul>'')\<close>

definition ulReplacement :: "string \<Rightarrow> (nat \<rightharpoonup> string) \<Rightarrow> string" where
  "ulReplacement m cs = ''<ul><li>'' @ arg cs 1 @ ''</li></ul>''"

definition olReplacement :: "string \<Rightarrow> (nat \<rightharpoonup> string) \<Rightarrow> string" where
  "olReplacement m cs = ''<ol><li>'' @ arg cs 1 @ ''</li></ol>''"

definition startsWith :: "string \<Rightarrow> string \<Rightarrow> bool" where
  "startsWith s pre = (take (length pre) s = pre)"

definition endsWith :: "string \<Rightarrow> string \<Rightarrow> bool" where
  "endsWith s suf = (length suf \<le> length s \<and> drop (length s - length suf) s = suf)"

definition paragraphReplacement :: "string \<Rightarrow> (nat \<rightharpoonup> string) \<Rightarrow> string" where
  "paragraphReplacement m cs =
     (if startsWith (trim (arg cs 1)) ''<'' then arg cs 1 else ''<p>'' @ arg cs 1 @ ''</p>'')"

definition wrap :: "string \<Rightarrow> piece list" where
  "wrap tag = [Lit (''<'' @ tag @ ''>''), Ref 1, Lit (''</'' @ tag @ ''>'')]"

definition strongEm :: "piece list" where
  "strongEm = [Lit ''<strong><em>'', Ref 1, Lit ''</em></strong>'']"

definition linkTemplate :: "piece list" where
  \<open>linkTemplate = [Lit ''<a href="'', Ref 2, Lit ''">'', Ref 1, Lit ''</a>'']\<close>

definition imageTemplate :: "piece list" where
  \<open>imageTemplate = [Lit ''<img src="'', Ref 2, Lit ''" alt="'', Ref 1, Lit ''">'']\<close>

definition mkRule :: "regex \<Rightarrow> replacement \<Rightarrow> rule" where
  "mkRule r v = \<lparr>pattern = regExp r, replacement = v\<rparr>"

definition initializeRules :: "rule list" where
  "initializeRules =
    [mkRule (headerPattern 6) (Template (wrap ''h6'')),
     mkRule (headerPattern 5) (Template (wrap ''h5'')),
     mkRule (headerPattern 4) (Template (wrap ''h4'')),
     mkRule (headerPattern 3) (Template (wrap ''h3'')),
     mkRule (headerPattern 2) (Template (wrap ''h2'')),
     mkRule (headerPattern 1) (Template (wrap ''h1'')),
     mkRule (hrPattern CHR ''-'') (Template [Lit ''<hr>'']),
     mkRule (hrPattern CHR ''*'') (Template [Lit ''<hr>'']),
     mkRule (hrPattern CHR ''_'') (Template [Lit ''<hr>'']),
     mkRule (delimPattern ''***'') (Template strongEm),
     mkRule (delimPattern ''___'') (Template strongEm),
     mkRule (delimPattern ''**'') (Template (wrap ''strong'')),
     mkRule (delimPattern ''__'') (Template (wrap ''strong'')),
     mkRule (delimPattern ''*'') (Template (wrap ''em'')),
     mkRule (delimPattern ''_'') (Template (wrap ''em'')),
     mkRule (delimPattern ''~~'') (Template (wrap ''del'')),
     mkRule codeBlockPattern (Function codeBlockReplacement),
     mkRule inlineCodePattern (Template (wrap ''code'')),
     mkRule linkPattern (Template linkTemplate),
     mkRule imagePattern (Template imageTemplate),
     mkRule blockquotePattern (Template (wrap ''blockquote'')),
     mkRule taskPattern (Function taskReplacement),
     mkRule ulPattern (Function ulReplacement),
     mkRule olPattern (Function olReplacement),
     mkRule paragraphPattern (Function paragraphReplacement)]"

record MarkdownParser =
  rules :: "rule list"

definition constructor :: MarkdownParser where
  "constructor = \<lparr>rules = initializeRules\<rparr>"

subsection \<open>\<open>parseInline\<close>\<close>

definition inlineRules :: "(regex \<times> piece list) list" where
  "inlineRules =
    [(delimPattern ''***'', strongEm),
     (delimPattern ''___'', strongEm),
     (delimPattern ''**'', wrap ''strong''),
     (delimPattern ''__'', wrap ''strong''),
     (delimPattern ''*'', wrap ''em''),
     (delimPattern ''_'', wrap ''em''),
     (delimPattern ''~~'', wrap ''del''),
     (inlineCodePattern, wrap ''code''),
     (linkPattern, linkTemplate)]"

definition applyInlineRule :: "regex \<times> piece list \<Rightarrow> nat \<Rightarrow> string \<Rightarrow> string" where
  "applyInlineRule rl i result = replaceAll (fst rl) (\<lambda>m cs. expand (snd rl) cs) None result"

definition parseInline :: "string \<Rightarrow> string" where
  "parseInline text = (if text = [] then [] else forEach applyInlineRule inlineRules text)"

subsection \<open>\<open>parseTables\<close>\<close>

text \<open>\<open>/(?:^|\n)((?:\|.*\|(?:\r?\n|\r)?)+)/gm\<close>\<close>

definition tablePattern :: regex where
  "tablePattern =
     cat [Alt Bol (Chr CHR 0x0A),
          Grp 1 (plus (cat [Chr CHR ''|'', star dot, Chr CHR ''|'',
                            opt (Alt (cat [opt (Chr CHR 0x0D), Chr CHR 0x0A]) (Chr CHR 0x0D))]))]"

text \<open>\<open>/^\|?\s*:?-+:?\s*(\|\s*:?-+:?\s*)*\|?$/\<close>\<close>

definition separatorPattern :: regex where
  "separatorPattern =
     cat [Bos, opt (Chr CHR ''|''), star space, opt (Chr CHR '':''), plus (Chr CHR ''-''),
          opt (Chr CHR '':''), star space,
          star (Grp 1 (cat [Chr CHR ''|'', star space, opt (Chr CHR '':''), plus (Chr CHR ''-''),
                            opt (Chr CHR '':''), star space])),
          opt (Chr CHR ''|''), Eos]"

definition cellsOf :: "string \<Rightarrow> string list" where
  "cellsOf line = filter (\<lambda>cell. cell \<noteq> []) (map trim (splitChar CHR ''|'' line))"

definition alignmentOf :: "string \<Rightarrow> string" where
  "alignmentOf sep =
     (if startsWith sep '':'' \<and> endsWith sep '':'' then ''center''
      else if endsWith sep '':'' then ''right''
      else ''left'')"

definition elemAt :: "'a list \<Rightarrow> nat \<Rightarrow> 'a option" where
  "elemAt xs i = (if i < length xs then Some (xs ! i) else None)"

definition styleOf :: "string list \<Rightarrow> nat \<Rightarrow> string" where
  \<open>styleOf alignments i =
     (let align = orDefault (elemAt alignments i) ''left''
      in if align \<noteq> ''left'' then '' style="text-align: '' @ align @ ''"'' else [])\<close>

definition addHeader :: "string list \<Rightarrow> string \<Rightarrow> nat \<Rightarrow> string \<Rightarrow> string" where
  "addHeader alignments header i tableHtml =
     tableHtml @ ''<th'' @ styleOf alignments i @ ''>'' @ parseInline header @ ''</th>\<newline>''"

definition addCell :: "string list \<Rightarrow> string \<Rightarrow> nat \<Rightarrow> string \<Rightarrow> string" where
  "addCell alignments cell i tableHtml =
     tableHtml @ ''<td'' @ styleOf alignments i @ ''>'' @ parseInline cell @ ''</td>\<newline>''"

definition addRow :: "string list \<Rightarrow> string list \<Rightarrow> nat \<Rightarrow> string \<Rightarrow> string" where
  "addRow alignments row j tableHtml =
     (if length row > 0
      then forEach (addCell alignments) row (tableHtml @ ''<tr>\<newline>'') @ ''</tr>\<newline>''
      else tableHtml)"

definition tableReplacement :: "string \<Rightarrow> (nat \<rightharpoonup> string) \<Rightarrow> string" where
  \<open>tableReplacement m cs =
     (let tableText = arg cs 1;
          lines = splitLines (trim tableText)
      in if length lines < 2 then m
         else
           let headerLine = lines ! 0;
               separatorLine = lines ! 1
           in if search separatorPattern None separatorLine = None then m
              else
                let headers = cellsOf headerLine;
                    alignments = map alignmentOf (cellsOf separatorLine);
                    rows = map cellsOf (drop 2 lines);
                    tableHtml0 = ''<table class="markdown-table">\<newline><thead>\<newline><tr>\<newline>'';
                    tableHtml1 = forEach (addHeader alignments) headers tableHtml0;
                    tableHtml2 = tableHtml1 @ ''</tr>\<newline></thead>\<newline><tbody>\<newline>'';
                    tableHtml3 = forEach (addRow alignments) rows tableHtml2;
                    tableHtml4 = tableHtml3 @ ''</tbody>\<newline></table>''
                in ''\<newline>'' @ tableHtml4 @ ''\<newline>'')\<close>

definition parseTables :: "string \<Rightarrow> string" where
  "parseTables text = replaceAll tablePattern tableReplacement None text"

subsection \<open>\<open>consolidateLists\<close> and \<open>consolidateBlockquotes\<close>\<close>

text \<open>\<open>/(<\/ul>\s*<ul>)/g\<close>, \<open>/(<\/ol>\s*<ol>)/g\<close>, \<open>/(<\/blockquote>\s*<blockquote>)/g\<close>\<close>

definition adjacentPattern :: "string \<Rightarrow> regex" where
  "adjacentPattern tag =
     Grp 1 (cat [lit (''</'' @ tag @ ''>''), star space, lit (''<'' @ tag @ ''>'')])"

definition consolidateLists :: "string \<Rightarrow> string" where
  "consolidateLists html =
     (let html1 = replaceAll (adjacentPattern ''ul'') (\<lambda>m cs. expand [] cs) None html;
          html2 = replaceAll (adjacentPattern ''ol'') (\<lambda>m cs. expand [] cs) None html1
      in html2)"

definition consolidateBlockquotes :: "string \<Rightarrow> string" where
  "consolidateBlockquotes html =
     replaceAll (adjacentPattern ''blockquote'') (\<lambda>m cs. expand [Lit ''\<newline>''] cs) None html"

subsection \<open>\<open>parse\<close>\<close>

text \<open>\<open>/```[\s\S]*?```/g\<close> and \<open>/`[^`]+`/g\<close>\<close>

definition fencePattern :: regex where
  "fencePattern = cat [lit ''```'', starLazy anyChar, lit ''```'']"

definition spanPattern :: regex where
  "spanPattern = cat [Chr CHR ''`'', plus (noneOf ''`''), Chr CHR ''`'']"

text \<open>\<open>/```(\w+)?\n?([\s\S]*?)```/\<close>\<close>

definition restorePattern :: regex where
  "restorePattern =
     cat [lit ''```'', opt (Grp 1 (plus word)), opt (Chr CHR 0x0A), Grp 2 (starLazy anyChar),
          lit ''```'']"

definition placeholder :: "string \<Rightarrow> nat \<Rightarrow> string" where
  "placeholder kind i = ''___'' @ kind @ ''_'' @ showNat i @ ''___''"

definition pushMatch :: "string \<Rightarrow> string list \<Rightarrow> string \<Rightarrow> (nat \<rightharpoonup> string) \<Rightarrow> string \<times> string list" where
  "pushMatch kind store m cs =
     (let store' = store @ [m] in (placeholder kind (length store' - 1), store'))"

definition restoreBlock :: "string \<Rightarrow> nat \<Rightarrow> string \<Rightarrow> string" where
  "restoreBlock block index html =
     replaceFirstStr (placeholder ''CODE_BLOCK'' index)
       (case search restorePattern None block of
          Some y \<Rightarrow> codeBlockHtml (caps y 1) (arg (caps y) 2)
        | None \<Rightarrow> block)
       html"

definition restoreInline :: "string \<Rightarrow> nat \<Rightarrow> string \<Rightarrow> string" where
  "restoreInline code index html =
     replaceFirstStr (placeholder ''INLINE_CODE'' index)
       (''<code>'' @ escapeHtml (butlast (tl code)) @ ''</code>'')
       html"

definition applyRule :: "rule \<Rightarrow> string \<Rightarrow> string \<times> rule" where
  "applyRule rl html =
     (case replacement rl of
        Function f \<Rightarrow>
          (let (html', rx) = jsReplace (pattern rl) f html in (html', rl\<lparr>pattern := rx\<rparr>))
      | Template t \<Rightarrow>
          (let (html', rx) = jsReplace (pattern rl) (\<lambda>m cs. expand t cs) html
           in (html', rl\<lparr>pattern := rx\<rparr>)))"

primrec applyRules :: "rule list \<Rightarrow> string \<Rightarrow> string \<times> rule list" where
  "applyRules [] html = (html, [])"
| "applyRules (rl # rls) html =
     (let (html1, rl') = applyRule rl html;
          (html2, rls') = applyRules rls html1
      in (html2, rl' # rls'))"

definition parse :: "MarkdownParser \<Rightarrow> string \<Rightarrow> string \<times> MarkdownParser" where
  "parse this markdown =
     (if markdown = [] then ([], this)
      else
        let (html1, codeBlocks) = replaceAllSt fencePattern (pushMatch ''CODE_BLOCK'') [] None markdown;
            (html2, inlineCode) = replaceAllSt spanPattern (pushMatch ''INLINE_CODE'') [] None html1;
            html3 = parseTables html2;
            (html4, rules') = applyRules (rules this) html3;
            html5 = forEach restoreBlock codeBlocks html4;
            html6 = forEach restoreInline inlineCode html5;
            html7 = consolidateLists html6;
            html8 = consolidateBlockquotes html7
        in (trim html8, this\<lparr>rules := rules'\<rparr>))"

text \<open>The output of \<open>parse\<close> on a parser fresh from its constructor.\<close>

definition render :: "string \<Rightarrow> string" where
  "render markdown = fst (parse constructor markdown)"

section \<open>Notions used to state the properties\<close>

text \<open>
  The two tests of \<open>parseTables\<close> on a run of pipe-delimited lines: at least two lines, and
  a second line of the shape of an alignment separator.
\<close>

definition isTable :: "string \<Rightarrow> bool" where
  "isTable tableText =
     (let lines = splitLines (trim tableText)
      in 2 \<le> length lines \<and> search separatorPattern None (lines ! 1) \<noteq> None)"




text \<open>The cells of a header row and of a body row as elements, and a body row as an element.\<close>

definition thElements :: "string list \<Rightarrow> string list \<Rightarrow> string list" where
  "thElements alignments headers =
     map (\<lambda>i. ''<th'' @ styleOf alignments i @ ''>'' @ parseInline (headers ! i) @ ''</th>\<newline>'')
       [0..<length headers]"

definition tdElements :: "string list \<Rightarrow> string list \<Rightarrow> string list" where
  "tdElements alignments row =
     map (\<lambda>i. ''<td'' @ styleOf alignments i @ ''>'' @ parseInline (row ! i) @ ''</td>\<newline>'')
       [0..<length row]"

definition trElement :: "string list \<Rightarrow> string list \<Rightarrow> string" where
  "trElement alignments row =
     (if row = [] then [] else ''<tr>\<newline>'' @ concat (tdElements alignments row) @ ''</tr>\<newline>'')"

text \<open>The states of a parser object: fresh from its constructor, or after a call of \<open>parse\<close>.\<close>

inductive reachable :: "MarkdownParser \<Rightarrow> bool" where
  fresh: "reachable constructor"
| call: "reachable this \<Longrightarrow> reachable (snd (parse this markdown))"

text \<open>
  \<open>needs r ch\<close>: every match of \<open>r\<close> contains the character \<open>ch\<close> (a sufficient syntactic
  test).
\<close>

primrec needs :: "regex \<Rightarrow> char \<Rightarrow> bool" where
  "needs Eps ch = False"
| "needs (Chr a) ch = (a = ch)"
| "needs (Cls p) ch = False"
| "needs (Seq r1 r2) ch = (needs r1 ch \<or> needs r2 ch)"
| "needs (Alt r1 r2) ch = (needs r1 ch \<and> needs r2 ch)"
| "needs (Rep mn mx g r) ch = (0 < mn \<and> mx \<noteq> Some 0 \<and> needs r ch)"
| "needs (Grp n r) ch = needs r ch"
| "needs Bol ch = False"
| "needs Eol ch = False"
| "needs Bos ch = False"
| "needs Eos ch = False"
| "needs (NLook r) ch = False"









section \<open>Properties\<close>

subsection \<open>What a match consumes\<close>

lemma rest_clearGroups [simp]: "rest (clearGroups gs x) = rest x"
  by (simp add: clearGroups_def)

lemma prev_clearGroups [simp]: "prev (clearGroups gs x) = prev x"
  by (simp add: clearGroups_def)

lemma repeatMatcher_consumes:
  assumes m: "\<And>c x z. m c x = Some z \<Longrightarrow> \<exists>y u. c y = Some z \<and> rest x = u @ rest y \<and> (nd \<longrightarrow> ch \<in> set u)"
  shows "repeatMatcher n m gs mn mx g c x = Some z \<Longrightarrow>
         \<exists>y u. c y = Some z \<and> rest x = u @ rest y \<and> (nd \<and> 0 < mn \<and> mx \<noteq> Some 0 \<longrightarrow> ch \<in> set u)"
proof (induction n arbitrary: mn mx x)
  case 0
  then show ?case by simp
next
  case (Suc n)
  let ?k = "repeatMatcher n m gs (mn - 1) (decr mx) g c"
  let ?d = "checkEmpty (mn = 0) (length (rest x)) ?k"
  have self: "c x = Some z \<Longrightarrow> mx = Some 0 \<or> mn = 0 \<Longrightarrow> ?case"
    by (rule exI [of _ x], rule exI [of _ "[]"]) auto
  have iter: ?case if "m ?d (clearGroups gs x) = Some z"
  proof -
    from m [OF that] obtain y1 u1 where d: "?d y1 = Some z" and r1: "rest x = u1 @ rest y1"
      and n1: "nd \<longrightarrow> ch \<in> set u1" by auto
    from d have "?k y1 = Some z" by (simp add: checkEmpty_def split: if_splits)
    from Suc.IH [OF this] obtain y u where "c y = Some z" "rest y1 = u @ rest y" by blast
    with r1 n1 show ?thesis
      by (intro exI [of _ y] exI [of _ "u1 @ u"]) auto
  qed
  from Suc.prems show ?case
    using self iter
    by (auto simp: repeatStep_def split: if_splits option.splits)
qed

lemma matcher_consumes:
  "matcher r c x = Some z \<Longrightarrow>
     \<exists>y u. c y = Some z \<and> rest x = u @ rest y \<and> (needs r ch \<longrightarrow> ch \<in> set u)"
proof (induction r arbitrary: c x z)
  case Eps
  then show ?case by (intro exI [of _ x] exI [of _ "[]"]) simp
next
  case (Chr a)
  then show ?case
    by (cases "rest x") (auto simp: advance_def split: if_splits intro!: exI [of _ "[a]"])
next
  case (Cls p)
  then show ?case
    by (cases "rest x") (auto simp: advance_def split: if_splits intro!: exI [of _ "[hd (rest x)]"])
next
  case (Seq r1 r2)
  from Seq.prems have "matcher r1 (matcher r2 c) x = Some z" by simp
  from Seq.IH(1) [OF this] obtain y1 u1 where a: "matcher r2 c y1 = Some z"
    "rest x = u1 @ rest y1" "needs r1 ch \<longrightarrow> ch \<in> set u1" by blast
  from Seq.IH(2) [OF a(1)] obtain y u2 where b: "c y = Some z" "rest y1 = u2 @ rest y"
    "needs r2 ch \<longrightarrow> ch \<in> set u2" by blast
  from a b show ?case by (intro exI [of _ y] exI [of _ "u1 @ u2"]) auto
next
  case (Alt r1 r2)
  then show ?case by (fastforce split: option.splits)
next
  case (Rep mn mx g r)
  from Rep.prems have
    "repeatMatcher (Suc (mn + length (rest x))) (matcher r) (grps r) mn mx g c x = Some z" by simp
  from repeatMatcher_consumes [where m = "matcher r" and nd = "needs r ch" and ch = ch, OF Rep.IH this]
  show ?case by auto
next
  case (Grp n r)
  from Grp.prems have "matcher r (setCap n (rest x) c) x = Some z" by simp
  from Grp.IH [OF this] obtain y u where a: "setCap n (rest x) c y = Some z"
    "rest x = u @ rest y" "needs r ch \<longrightarrow> ch \<in> set u" by blast
  then show ?case
    by (intro exI [of _ "y\<lparr>caps := (caps y)(n \<mapsto> take (length (rest x) - length (rest y)) (rest x))\<rparr>"]
          exI [of _ u]) (auto simp: setCap_def)
next
  case Bol
  then show ?case by (intro exI [of _ x] exI [of _ "[]"]) (auto split: option.splits if_splits)
next
  case Eol
  then show ?case by (intro exI [of _ x] exI [of _ "[]"]) (auto split: list.splits if_splits)
next
  case Bos
  then show ?case by (intro exI [of _ x] exI [of _ "[]"]) (auto split: option.splits)
next
  case Eos
  then show ?case by (intro exI [of _ x] exI [of _ "[]"]) (auto split: list.splits)
next
  case (NLook r)
  then show ?case by (intro exI [of _ x] exI [of _ "[]"]) (auto split: option.splits)
qed

lemma matchAt_needs: "needs r ch \<Longrightarrow> ch \<notin> set s \<Longrightarrow> matchAt r p s = None"
proof (rule ccontr)
  assume n: "needs r ch" and s: "ch \<notin> set s" and "matchAt r p s \<noteq> None"
  then obtain z where "matcher r Some \<lparr>prev = p, rest = s, caps = Map.empty\<rparr> = Some z"
    by (auto simp: matchAt_def)
  from matcher_consumes [OF this, of ch] n s show False by auto
qed

lemma replaceAll_needs: "needs r ch \<Longrightarrow> ch \<notin> set s \<Longrightarrow> replaceAll r f p s = s"
proof (induction s arbitrary: p)
  case Nil
  then show ?case by (subst replaceAll.simps) (simp add: matchAt_needs)
next
  case (Cons a s)
  then show ?case by (subst replaceAll.simps) (simp add: matchAt_needs)
qed



declare matcher.simps [simp del] repeatMatcher.simps [simp del]

lemma clearGroups_Nil [simp]: "clearGroups [] x = x"
  by (simp add: clearGroups_def clearCaps_def)

lemma lastChar_simps [simp]:
  "lastChar p [] = p"
  "lastChar (Some a) xs = Some (last (a # xs))"
  "lastChar p (a # xs) = Some (last (a # xs))"
  by (simp_all add: lastChar_def split: list.splits)

lemma repeatMatcher_greedy_run:
  assumes "\<forall>a\<in>set xs. P a"
    and "case ys of [] \<Rightarrow> True | b # bs \<Rightarrow> \<not> P b"
    and "mn \<le> length xs"
    and "mn + length (xs @ ys) < n"
    and "rest x = xs @ ys"
    and "c (x\<lparr>prev := lastChar (prev x) xs, rest := ys\<rparr>) = Some z"
  shows "repeatMatcher n (matcher (Cls P)) [] mn None True c x = Some z"
  using assms
proof (induction xs arbitrary: x n mn)
  case Nil
  then obtain n' where n: "n = Suc n'" by (cases n) auto
  have stop: "matcher (Cls P) d x = None" for d
    using Nil.prems(2,5) by (auto simp: matcher.simps split: list.splits)
  have "x\<lparr>prev := lastChar (prev x) [], rest := ys\<rparr> = x"
    using Nil.prems(5) by simp
  with Nil.prems(6) have "c x = Some z" by simp
  with Nil.prems(3) show ?case
    by (simp add: n repeatMatcher.simps repeatStep_def stop)
next
  case (Cons a xs)
  then obtain n' where n: "n = Suc n'" by (cases n) auto
  let ?x' = "advance x a (xs @ ys)"
  have c: "c (?x'\<lparr>prev := lastChar (prev ?x') xs, rest := ys\<rparr>) = Some z"
    using Cons.prems(6) by (simp add: advance_def)
  have ih: "repeatMatcher n' (matcher (Cls P)) [] (mn - Suc 0) None True c ?x' = Some z"
    using Cons.prems c by (intro Cons.IH) (auto simp: n advance_def)
  have go: "matcher (Cls P) d x = d ?x'" for d
    using Cons.prems(1,5) by (simp add: matcher.simps)
  have len: "length (rest ?x') \<noteq> length (rest x)"
    using Cons.prems(5) by (simp add: advance_def)
  show ?case
    using ih by (cases "mn = 0") (simp_all add: n repeatMatcher.simps repeatStep_def go checkEmpty_def len decr_def)
qed


lemmas pattern_defs =
  cat.simps lit_def star_def plus_def opt_def starLazy_def plusLazy_def times_def
  dot_def anyChar_def space_def digit_def word_def noneOf_def oneOf_def

subsection \<open>The pattern objects after a call\<close>

lemma applyRule_result:
  "applyRule rl html =
     (replaceAll (source (pattern rl))
        (case replacement rl of Function f \<Rightarrow> f | Template t \<Rightarrow> (\<lambda>m cs. expand t cs)) None html,
      rl\<lparr>pattern := (pattern rl)\<lparr>lastIndex := 0\<rparr>\<rparr>)"
  by (simp add: applyRule_def jsReplace_def split: replacement.split)

lemma snd_applyRules:
  "snd (applyRules rls html) = map (\<lambda>rl. rl\<lparr>pattern := (pattern rl)\<lparr>lastIndex := 0\<rparr>\<rparr>) rls"
  by (induction rls arbitrary: html) (simp_all add: applyRule_result split_def Let_def)

lemma reset_mkRule: "(mkRule r v)\<lparr>pattern := (pattern (mkRule r v))\<lparr>lastIndex := 0\<rparr>\<rparr> = mkRule r v"
  by (simp add: mkRule_def regExp_def)

lemma snd_applyRules_initializeRules: "snd (applyRules initializeRules html) = initializeRules"
  unfolding snd_applyRules initializeRules_def list.map reset_mkRule ..

lemma parse_stages:
  assumes "markdown \<noteq> []"
    and "replaceAllSt fencePattern (pushMatch ''CODE_BLOCK'') [] None markdown = (h1, cb)"
    and "replaceAllSt spanPattern (pushMatch ''INLINE_CODE'') [] None h1 = (h2, ic)"
    and "parseTables h2 = h3"
    and "fst (applyRules initializeRules h3) = h4"
    and "forEach restoreBlock cb h4 = h5"
    and "forEach restoreInline ic h5 = h6"
    and "consolidateLists h6 = h7"
    and "consolidateBlockquotes h7 = h8"
    and "trim h8 = h9"
  shows "parse constructor markdown = (h9, constructor)"
proof -
  have "applyRules initializeRules h3 = (h4, initializeRules)"
    using assms(5) snd_applyRules_initializeRules [of h3] by (cases "applyRules initializeRules h3") simp
  then show ?thesis
    using assms by (simp add: parse_def constructor_def)
qed

lemma render_stages:
  assumes "markdown \<noteq> []"
    and "replaceAllSt fencePattern (pushMatch ''CODE_BLOCK'') [] None markdown = (h1, cb)"
    and "replaceAllSt spanPattern (pushMatch ''INLINE_CODE'') [] None h1 = (h2, ic)"
    and "parseTables h2 = h3"
    and "fst (applyRules initializeRules h3) = h4"
    and "forEach restoreBlock cb h4 = h5"
    and "forEach restoreInline ic h5 = h6"
    and "consolidateLists h6 = h7"
    and "consolidateBlockquotes h7 = h8"
    and "trim h8 = h9"
  shows "render markdown = h9"
  using parse_stages [OF assms] by (simp add: render_def)

subsection \<open>Code spans and their placeholders\<close>

text \<open>
  C1.  The claim: literal content of a code span is never altered by the block and inline
  rules and appears HTML-escaped in the output; for the input consisting of the code span
  \<open><tag>\<close> the output is the escaped tag inside a \<open>code\<close> element.  On the code, the
  placeholder of the span is itself rewritten by the rules for \<open>___\<close> and \<open>_\<close>, it is not
  found again by the restoring step, and the content of the span is lost.
\<close>

theorem inline_code_span_lost:
  \<open>render ''`<tag>`'' = ''<strong><em>INLINE<em>CODE</em>0</em></strong>''\<close>
  by (rule render_stages [where ?h1.0 = \<open>''`<tag>`''\<close> and cb = "[]"
        and ?h2.0 = "''___INLINE_CODE_0___''" and ic = \<open>[''`<tag>`'']\<close>
        and ?h3.0 = "''___INLINE_CODE_0___''"
        and ?h4.0 = "''<strong><em>INLINE<em>CODE</em>0</em></strong>''"
        and ?h5.0 = "''<strong><em>INLINE<em>CODE</em>0</em></strong>''"
        and ?h6.0 = "''<strong><em>INLINE<em>CODE</em>0</em></strong>''"
        and ?h7.0 = "''<strong><em>INLINE<em>CODE</em>0</em></strong>''"
        and ?h8.0 = "''<strong><em>INLINE<em>CODE</em>0</em></strong>''"]; code_simp)

text \<open>
  C2.  The claim: between protection and restoration no block or inline rule matches or
  rewrites a placeholder \<open>___CODE_BLOCK_i___\<close> or \<open>___INLINE_CODE_i___\<close>, and each
  placeholder is restored exactly once.  On the code, the rules rewrite the placeholder of
  the first fenced block (the rule for \<open>___\<close> and then the rule for \<open>_\<close> match it), and a
  document that is one fenced block is rendered without any of its content: the placeholder
  is never restored.
\<close>

theorem code_block_placeholder_rewritten:
  \<open>fst (applyRules initializeRules (placeholder ''CODE_BLOCK'' 0))
     = ''<strong><em>CODE<em>BLOCK</em>0</em></strong>''
   \<and> render ''```\<newline>x\<newline>```'' = ''<strong><em>CODE<em>BLOCK</em>0</em></strong>''\<close>
proof
  show \<open>fst (applyRules initializeRules (placeholder ''CODE_BLOCK'' 0))
          = ''<strong><em>CODE<em>BLOCK</em>0</em></strong>''\<close>
    by code_simp
  show \<open>render ''```\<newline>x\<newline>```'' = ''<strong><em>CODE<em>BLOCK</em>0</em></strong>''\<close>
    by (rule render_stages [where ?h1.0 = \<open>''___CODE_BLOCK_0___''\<close>
        and cb = \<open>[''```\<newline>x\<newline>```'']\<close>
        and ?h2.0 = \<open>''___CODE_BLOCK_0___''\<close>
        and ic = \<open>[]\<close>
        and ?h3.0 = \<open>''___CODE_BLOCK_0___''\<close>
        and ?h4.0 = \<open>''<strong><em>CODE<em>BLOCK</em>0</em></strong>''\<close>
        and ?h5.0 = \<open>''<strong><em>CODE<em>BLOCK</em>0</em></strong>''\<close>
        and ?h6.0 = \<open>''<strong><em>CODE<em>BLOCK</em>0</em></strong>''\<close>
        and ?h7.0 = \<open>''<strong><em>CODE<em>BLOCK</em>0</em></strong>''\<close>
        and ?h8.0 = \<open>''<strong><em>CODE<em>BLOCK</em>0</em></strong>''\<close>]; code_simp)
qed

subsection \<open>Images and task lists\<close>

text \<open>
  C3.  The claim: a line with an image expression \<open>![alt](url)\<close> is rendered as an \<open>img\<close>
  element, the link rule not firing on the bracket text of the image.  On the code, the link
  rule runs before the image rule and matches \<open>[alt](url)\<close> behind the exclamation mark, so
  the image becomes an exclamation mark followed by a link, inside a paragraph.
\<close>

theorem image_rendered_as_link:
  \<open>render ''![alt](url)'' = ''<p>!<a href="url">alt</a></p>''\<close>
  by (rule render_stages [where ?h1.0 = \<open>''![alt](url)''\<close>
        and cb = \<open>[]\<close>
        and ?h2.0 = \<open>''![alt](url)''\<close>
        and ic = \<open>[]\<close>
        and ?h3.0 = \<open>''![alt](url)''\<close>
        and ?h4.0 = \<open>''<p>!<a href="url">alt</a></p>''\<close>
        and ?h5.0 = \<open>''<p>!<a href="url">alt</a></p>''\<close>
        and ?h6.0 = \<open>''<p>!<a href="url">alt</a></p>''\<close>
        and ?h7.0 = \<open>''<p>!<a href="url">alt</a></p>''\<close>
        and ?h8.0 = \<open>''<p>!<a href="url">alt</a></p>''\<close>]; code_simp)

text \<open>
  C4.  The claim: the task-list rule applies to \<open>- [x] item\<close> and to \<open>- [X] item\<close> alike
  (the \<open>x\<close> is case-insensitive) and produces a checked, disabled checkbox.  On the code,
  the pattern of the rule accepts only a space or a lower-case \<open>x\<close> between the brackets,
  although its replacement function lower-cases the mark before comparing it: a line with
  an upper-case \<open>X\<close> falls through to the rule for unordered lists.
\<close>

theorem upper_case_task_is_plain_item:
  \<open>render ''- [X] item'' = ''<ul><li>[X] item</li></ul>''\<close>
  by (rule render_stages [where ?h1.0 = \<open>''- [X] item''\<close>
        and cb = \<open>[]\<close>
        and ?h2.0 = \<open>''- [X] item''\<close>
        and ic = \<open>[]\<close>
        and ?h3.0 = \<open>''- [X] item''\<close>
        and ?h4.0 = \<open>''<ul><li>[X] item</li></ul>''\<close>
        and ?h5.0 = \<open>''<ul><li>[X] item</li></ul>''\<close>
        and ?h6.0 = \<open>''<ul><li>[X] item</li></ul>''\<close>
        and ?h7.0 = \<open>''<ul><li>[X] item</li></ul>''\<close>
        and ?h8.0 = \<open>''<ul><li>[X] item</li></ul>''\<close>]; code_simp)

subsection \<open>Tables\<close>

lemma forEachFrom_append:
  "forEachFrom k (\<lambda>x i s. s @ g x i) xs s
     = s @ concat (map (\<lambda>j. g (xs ! j) (k + j)) [0..<length xs])"
proof (induction xs arbitrary: k s)
  case Nil
  then show ?case by simp
next
  case (Cons x xs)
  have "[0..<Suc (length xs)] = 0 # map Suc [0..<length xs]"
    by (simp add: upt_conv_Cons map_Suc_upt del: upt_Suc)
  then show ?case
    by (simp add: Cons.IH comp_def del: upt_Suc)
qed

lemma forEach_addCell:
  "forEach (addCell alignments) row s = s @ concat (tdElements alignments row)"
proof -
  have "addCell alignments
          = (\<lambda>cell i s. s @ ''<td'' @ styleOf alignments i @ ''>'' @ parseInline cell @ ''</td>\<newline>'')"
    by (intro ext) (simp add: addCell_def)
  then show ?thesis
    by (simp add: forEach_def tdElements_def forEachFrom_append del: append.simps)
qed

lemma forEach_addHeader:
  "forEach (addHeader alignments) headers s = s @ concat (thElements alignments headers)"
proof -
  have "addHeader alignments
          = (\<lambda>header i s. s @ ''<th'' @ styleOf alignments i @ ''>'' @ parseInline header @ ''</th>\<newline>'')"
    by (intro ext) (simp add: addHeader_def)
  then show ?thesis
    by (simp add: forEach_def thElements_def forEachFrom_append del: append.simps)
qed

lemma addRow_trElement: "addRow alignments row j s = s @ trElement alignments row"
  by (simp add: addRow_def trElement_def forEach_addCell)

lemma forEachFrom_addRow:
  "forEachFrom k (addRow alignments) rows s = s @ concat (map (trElement alignments) rows)"
  by (induction rows arbitrary: k s) (simp_all add: addRow_trElement)

lemma forEach_addRow:
  "forEach (addRow alignments) rows s = s @ concat (map (trElement alignments) rows)"
  by (simp add: forEach_def forEachFrom_addRow)

text \<open>
  C5.  The claim: the column count of a table is fixed by its header row; a body row with
  fewer cells renders that fewer number of \<open>td\<close> elements, and the cells of a body row
  beyond the header's column count are dropped.  The second half fails on the code: a body
  row of two cells under a header of one column renders both cells.
\<close>

theorem extra_cells_are_rendered:
  \<open>parseTables ''|a|\<newline>|-|\<newline>|1|2|''
     = ''\<newline><table class="markdown-table">\<newline><thead>\<newline><tr>\<newline><th>a</th>\<newline></tr>\<newline></thead>\<newline><tbody>\<newline><tr>\<newline><td>1</td>\<newline><td>2</td>\<newline></tr>\<newline></tbody>\<newline></table>\<newline>''\<close>
  by code_simp

text \<open>
  C5, as amended.  The header row determines the \<open>th\<close> elements only.  For every run that
  passes the two tests of \<open>parseTables\<close>, each body line is rendered from its own non-empty
  cells, one \<open>td\<close> element for each of them: fewer than the header has where the line has
  fewer, more where it has more, and nothing for a line without a non-empty cell.
\<close>

theorem table_rows_render_every_cell:
  assumes "isTable (arg cs 1)"
  shows \<open>tableReplacement m cs =
           (let lines = splitLines (trim (arg cs 1));
                alignments = map alignmentOf (cellsOf (lines ! 1))
            in ''\<newline><table class="markdown-table">\<newline><thead>\<newline><tr>\<newline>''
                 @ concat (thElements alignments (cellsOf (lines ! 0)))
                 @ ''</tr>\<newline></thead>\<newline><tbody>\<newline>''
                 @ concat (map (\<lambda>line. trElement alignments (cellsOf line)) (drop 2 lines))
                 @ ''</tbody>\<newline></table>\<newline>'')
         \<and> length (tdElements alignments row) = length row\<close>
proof -
  from assms obtain y where "\<not> length (splitLines (trim (arg cs 1))) < 2"
    and "search separatorPattern None (splitLines (trim (arg cs 1)) ! 1) = Some y"
    by (auto simp: isTable_def Let_def)
  then show ?thesis
    by (simp add: tableReplacement_def Let_def forEach_addHeader forEach_addRow
          tdElements_def comp_def del: append.simps)
qed

theorem table_rows_render_every_cell_witness:
  \<open>isTable (arg [1 \<mapsto> ''|a|\<newline>|-|\<newline>|1|2|\<newline>''] 1)
   \<and> tableReplacement ''|a|\<newline>|-|\<newline>|1|2|\<newline>'' [1 \<mapsto> ''|a|\<newline>|-|\<newline>|1|2|\<newline>'']
       = ''\<newline><table class="markdown-table">\<newline><thead>\<newline><tr>\<newline><th>a</th>\<newline></tr>\<newline></thead>\<newline><tbody>\<newline><tr>\<newline><td>1</td>\<newline><td>2</td>\<newline></tr>\<newline></tbody>\<newline></table>\<newline>''
   \<and> length (tdElements [''left''] [''1'', ''2'']) = 2\<close>
proof -
  let ?t = \<open>''|a|\<newline>|-|\<newline>|1|2|\<newline>''\<close>
  have h: "isTable (arg [1 \<mapsto> ?t] 1)"
    by code_simp
  have v: \<open>(let lines = splitLines (trim (arg [1 \<mapsto> ?t] 1));
                alignments = map alignmentOf (cellsOf (lines ! 1))
            in ''\<newline><table class="markdown-table">\<newline><thead>\<newline><tr>\<newline>''
                 @ concat (thElements alignments (cellsOf (lines ! 0)))
                 @ ''</tr>\<newline></thead>\<newline><tbody>\<newline>''
                 @ concat (map (\<lambda>line. trElement alignments (cellsOf line)) (drop 2 lines))
                 @ ''</tbody>\<newline></table>\<newline>'')
          = ''\<newline><table class="markdown-table">\<newline><thead>\<newline><tr>\<newline><th>a</th>\<newline></tr>\<newline></thead>\<newline><tbody>\<newline><tr>\<newline><td>1</td>\<newline><td>2</td>\<newline></tr>\<newline></tbody>\<newline></table>\<newline>''\<close>
    by code_simp
  from table_rows_render_every_cell [OF h, of ?t "[''left'']" "[''1'', ''2'']"] h
  show ?thesis unfolding v by simp
qed

subsection \<open>State between calls\<close>

lemma parse_constructor: "parse constructor d = (render d, constructor)"
proof -
  have "snd (parse constructor d) = constructor"
    using snd_applyRules_initializeRules
    by (simp add: parse_def constructor_def split_def Let_def)
  then show ?thesis by (simp add: render_def prod_eq_iff)
qed

lemma reachable_constructor: "reachable this \<Longrightarrow> this = constructor"
  by (induction rule: reachable.induct) (simp_all add: parse_constructor)

text \<open>
  C8.  \<open>parse\<close> keeps no state between calls: on every state that a parser object can
  reach by calls of \<open>parse\<close>, whatever documents were parsed before, a document is rendered
  to the same output, and the call leaves the object as it found it.  (The only state of the
  object is the \<open>lastIndex\<close> of its pattern objects, which every \<open>replace\<close> leaves at 0.)
\<close>

theorem parse_is_pure:
  assumes "reachable this" and "reachable this'"
  shows "fst (parse this d) = fst (parse this' d) \<and> snd (parse this d) = this"
  using assms by (auto dest!: reachable_constructor simp: parse_constructor)

theorem parse_is_pure_witness:
  "reachable (snd (parse constructor ''# a''))
   \<and> reachable (snd (parse (snd (parse constructor ''- b'')) ''c''))
   \<and> fst (parse (snd (parse constructor ''# a'')) ''*x*'')
       = fst (parse (snd (parse (snd (parse constructor ''- b'')) ''c'')) ''*x*'')
   \<and> snd (parse (snd (parse constructor ''# a'')) ''*x*'') = snd (parse constructor ''# a'')"
proof -
  have h1: "reachable (snd (parse constructor ''# a''))"
    by (intro reachable.intros)
  have h2: "reachable (snd (parse (snd (parse constructor ''- b'')) ''c''))"
    by (intro reachable.intros)
  from parse_is_pure [OF h1 h2] h1 h2 show ?thesis by blast
qed

subsection \<open>Inline code in table cells\<close>

lemma needs_delimPattern: "d \<noteq> [] \<Longrightarrow> needs (delimPattern d) (hd d)"
  by (cases d) (simp_all add: delimPattern_def lit_def)

lemma replaceAll_delim_absent:
  "d \<noteq> [] \<Longrightarrow> hd d \<notin> set s \<Longrightarrow> replaceAll (delimPattern d) f p s = s"
  by (rule replaceAll_needs [OF needs_delimPattern])

lemma needs_linkPattern: "needs linkPattern CHR ''[''"
  by (simp add: linkPattern_def)

lemma matchAt_inlineCode_whole:
  assumes "c \<noteq> []" and "CHR ''`'' \<notin> set c"
  shows "matchAt inlineCodePattern p (CHR ''`'' # c @ ''`'')
           = Some \<lparr>prev = Some CHR ''`'', rest = [], caps = [1 \<mapsto> c]\<rparr>"
proof -
  let ?x1 = "\<lparr>prev = Some CHR ''`'', rest = c @ ''`'', caps = Map.empty\<rparr>"
  let ?K = "setCap 1 (c @ ''`'') (matcher (cat [Chr CHR ''`'']) Some)"
  have "repeatMatcher (Suc (1 + length (c @ ''`''))) (matcher (Cls (\<lambda>a. a \<notin> set ''`''))) [] 1 None True ?K ?x1
          = Some \<lparr>prev = Some CHR ''`'', rest = [], caps = [1 \<mapsto> c]\<rparr>"
    using assms
    by (intro repeatMatcher_greedy_run [where xs = c and ys = "''`''"])
       (auto simp: setCap_def matcher.simps advance_def Suc_le_eq)
  then show ?thesis
    by (simp add: matchAt_def inlineCodePattern_def pattern_defs matcher.simps advance_def)
qed

lemma replaceAll_inlineCode_whole:
  assumes "c \<noteq> []" and "CHR ''`'' \<notin> set c"
  shows "replaceAll inlineCodePattern (\<lambda>m cs. expand (wrap ''code'') cs) p (CHR ''`'' # c @ ''`'')
           = ''<code>'' @ c @ ''</code>''"
proof -
  have "matchAt inlineCodePattern q [] = None" for q
    by (simp add: matchAt_def inlineCodePattern_def pattern_defs matcher.simps)
  then have "replaceAll inlineCodePattern f q [] = []" for f q
    by (subst replaceAll.simps) simp
  then show ?thesis
    by (subst replaceAll.simps)
       (simp add: matchAt_inlineCode_whole [OF assms] matched_def expand_def wrap_def)
qed

text \<open>
  C9.  The claim: for every cell text that is a backtick-delimited, non-empty, backtick-free
  content \<open>c\<close>, \<open>parseInline\<close> returns \<open>c\<close> verbatim inside a \<open>code\<close> element, without
  HTML-escaping.  It fails where \<open>c\<close> contains Markdown markers: the emphasis rules run
  before the rule for inline code.
\<close>

theorem parseInline_code_emphasis:
  \<open>parseInline ''`*a*`'' = ''<code><em>a</em></code>''\<close>
  by code_simp

text \<open>
  C9, as amended.  For every non-empty content \<open>c\<close> free of backticks and of the markers
  \<open>*\<close>, \<open>_\<close>, \<open>~\<close> and \<open>[\<close>, \<open>parseInline\<close> returns \<open>c\<close> verbatim inside a \<open>code\<close> element;
  the characters \<open>&\<close>, \<open><\<close>, \<open>>\<close> and the two quotes are not escaped.
\<close>

theorem parseInline_code_verbatim:
  assumes "c \<noteq> []" and "set c \<inter> set ''`*_~['' = {}"
  shows "parseInline (''`'' @ c @ ''`'') = ''<code>'' @ c @ ''</code>''"
proof -
  let ?t = "''`'' @ c @ ''`''"
  have abs: "CHR ''*'' \<notin> set ?t" "CHR ''_'' \<notin> set ?t" "CHR ''~'' \<notin> set ?t"
    "CHR ''['' \<notin> set (''<code>'' @ c @ ''</code>'')" "CHR ''`'' \<notin> set c"
    using assms(2) by auto
  have d: "replaceAll (delimPattern d) f None ?t = ?t"
    if "d \<in> {''***'', ''___'', ''**'', ''__'', ''*'', ''_'', ''~~''}" for d f
    using that abs by (intro replaceAll_delim_absent) auto
  have code: "replaceAll inlineCodePattern (\<lambda>m cs. expand (wrap ''code'') cs) None ?t
                = ''<code>'' @ c @ ''</code>''"
    using replaceAll_inlineCode_whole [OF assms(1) abs(5)] by simp
  have link: "replaceAll linkPattern f None (''<code>'' @ c @ ''</code>'') = ''<code>'' @ c @ ''</code>''" for f
    by (rule replaceAll_needs [OF needs_linkPattern abs(4)])
  show ?thesis
    by (simp add: parseInline_def forEach_def inlineRules_def applyInlineRule_def d code link
          del: append.simps)
qed

theorem parseInline_code_verbatim_witness:
  \<open>''a<b>&"'' @ [CHR 0x27] \<noteq> []
   \<and> set (''a<b>&"'' @ [CHR 0x27]) \<inter> set ''`*_~['' = {}
   \<and> parseInline (''`'' @ (''a<b>&"'' @ [CHR 0x27]) @ ''`'')
       = ''<code>'' @ (''a<b>&"'' @ [CHR 0x27]) @ ''</code>''\<close>
proof -
  have h1: \<open>''a<b>&"'' @ [CHR 0x27] \<noteq> []\<close>
    by simp
  have h2: \<open>set (''a<b>&"'' @ [CHR 0x27]) \<inter> set ''`*_~['' = {}\<close>
    by simp
  from parseInline_code_verbatim [OF h1 h2] h1 h2 show ?thesis by blast
qed

subsection \<open>Evaluating a pattern on a known prefix\<close>



subsection \<open>Stepping through a text\<close>






subsection \<open>Line-anchored patterns on a text of lines\<close>







subsection \<open>Lists\<close>



subsection \<open>Line-anchored patterns fail away from the start of a line\<close>








subsection \<open>What the first characters of a line exclude\<close>







subsection \<open>Characters that a match needs\<close>



subsection \<open>A list item line\<close>







subsection \<open>Consolidation\<close>



















subsection \<open>The rules, one after the other\<close>



























subsection \<open>Task lists\<close>




subsection \<open>Links and images on task lines\<close>














subsection \<open>A task line\<close>













subsection \<open>Consolidation leaves task lists apart\<close>














subsection \<open>Runs of pipe-delimited lines that are no table\<close>













lemma take_run: "take (length (J @ t) - length (drop 1 t)) (J @ t) = J @ take 1 t"
  by (cases t) simp_all





















end
